theory Spec2Isabelle
  imports Complex_Main "HOL-Library.Sublist" "HOL-Library.Multiset"
begin

section \<open>Transaction reconciliation of the finance tracker\<close>

text \<open>
  The development embeds the two state updates of the top-level component
  (\<^verbatim>\<open>addTransaction\<close> and \<^verbatim>\<open>addTransactions\<close> in \<^verbatim>\<open>App.tsx\<close>) and the
  \<^verbatim>\<open>Transaction\<close> type of \<^verbatim>\<open>types.ts\<close>.

  Modelling decisions, each at the place where the source leaves the repository:
  \<^item> a JavaScript string is a \<open>string\<close>, one \<open>char\<close> per code unit, which covers the code
    units below 256 (Latin-1); on these the case mapping and the white space of the
    model are those of the host;
  \<^item> a JavaScript number is an IEEE 754 double: a finite double is given by its exact
    value, a rational number; the subtraction rounds to the nearest double, ties to the
    even one; the two infinities and \<open>NaN\<close> are values of their own;
  \<^item> \<^verbatim>\<open>new Date(s)\<close> depends on the host (its parser and its time zone), so it is a
    parameter \<open>newDate\<close> of the model: \<open>None\<close> is the invalid date, \<open>Some d\<close> carries the
    local calendar fields read by \<^verbatim>\<open>getMonth()\<close> and \<^verbatim>\<open>getFullYear()\<close>;
  \<^item> the React state is passed explicitly: an updater takes the previous list
    \<open>prev\<close> and returns the next one.
\<close>

subsection \<open>Numbers of the host language\<close>

text \<open>
  The type \<^verbatim>\<open>number\<close>. \<open>Finite q\<close> is the double whose exact value is \<open>q\<close>; the model does
  not tell the negative zero from zero, which no operation used here can tell apart.
\<close>

datatype number = Finite rat | PosInf | NegInf | NaN

text \<open>The number of binary digits of a positive integer.\<close>

function bitLength :: "int \<Rightarrow> int" where
  "bitLength n = (if n \<le> 0 then 0 else 1 + bitLength (n div 2))"
  by pat_completeness auto
termination
  by (relation "measure nat") auto

definition pow2 :: "int \<Rightarrow> rat" where
  "pow2 k = (if 0 \<le> k then 2 ^ nat k else 1 / 2 ^ nat (- k))"

text \<open>
  The binary exponent of a positive rational \<open>x\<close>, the \<open>e\<close> with \<open>2\<^sup>e \<le> x < 2\<^sup>e\<^sup>+\<^sup>1\<close>: the
  difference of the bit lengths of numerator and denominator, or one less.
\<close>

definition exponentOf :: "rat \<Rightarrow> int" where
  "exponentOf x =
     (let (p, q) = quotient_of x;
          d = bitLength p - bitLength q
      in if pow2 d \<le> x then d else d - 1)"

definition roundHalfEven :: "rat \<Rightarrow> int" where
  "roundHalfEven x =
     (let f = \<lfloor>x\<rfloor>; d = x - of_int f
      in if d < 1 / 2 then f else if 1 / 2 < d then f + 1 else if even f then f else f + 1)"

text \<open>
  Rounding of a non-negative rational to a double (binary64: 53 significant bits,
  exponents from -1022 to 1023, subnormal numbers below): the value is rounded to a
  multiple of the unit in the last place of its binade, ties to the even multiple; a
  result that reaches \<open>2\<^sup>1\<^sup>0\<^sup>2\<^sup>4\<close> is the infinity.
\<close>

definition roundMagnitude :: "rat \<Rightarrow> number" where
  "roundMagnitude x =
     (if x = 0 then Finite 0
      else let e = max (exponentOf x) (- 1022);
               ulp = pow2 (e - 52);
               n = roundHalfEven (x / ulp)
           in if 1023 < (if n = 2 ^ 53 then e + 1 else e) then PosInf
              else Finite (of_int n * ulp))"

fun negate :: "number \<Rightarrow> number" where
  "negate (Finite q) = Finite (- q)"
| "negate PosInf = NegInf"
| "negate NegInf = PosInf"
| "negate NaN = NaN"

text \<open>
  The double nearest to a rational: the value of a numeric literal of the source and of
  a decimal number read from JSON, and the rounding step of the arithmetic.
\<close>

definition roundNumber :: "rat \<Rightarrow> number" where
  "roundNumber x = (if x < 0 then negate (roundMagnitude (- x)) else roundMagnitude x)"

text \<open>The operator \<^verbatim>\<open>-\<close> on two numbers.\<close>

fun subtract :: "number \<Rightarrow> number \<Rightarrow> number" where
  "subtract (Finite a) (Finite b) = roundNumber (a - b)"
| "subtract NaN _ = NaN"
| "subtract _ NaN = NaN"
| "subtract PosInf PosInf = NaN"
| "subtract NegInf NegInf = NaN"
| "subtract PosInf _ = PosInf"
| "subtract NegInf _ = NegInf"
| "subtract (Finite a) PosInf = NegInf"
| "subtract (Finite a) NegInf = PosInf"

text \<open>\<^verbatim>\<open>Math.abs\<close>\<close>

fun Math_abs :: "number \<Rightarrow> number" where
  "Math_abs (Finite q) = Finite \<bar>q\<bar>"
| "Math_abs PosInf = PosInf"
| "Math_abs NegInf = PosInf"
| "Math_abs NaN = NaN"

text \<open>The operator \<^verbatim>\<open><\<close> on two numbers: false as soon as one of them is \<open>NaN\<close>.\<close>

fun numLess :: "number \<Rightarrow> number \<Rightarrow> bool" where
  "numLess (Finite a) (Finite b) \<longleftrightarrow> a < b"
| "numLess NaN _ \<longleftrightarrow> False"
| "numLess _ NaN \<longleftrightarrow> False"
| "numLess PosInf _ \<longleftrightarrow> False"
| "numLess NegInf NegInf \<longleftrightarrow> False"
| "numLess NegInf _ \<longleftrightarrow> True"
| "numLess (Finite a) PosInf \<longleftrightarrow> True"
| "numLess (Finite a) NegInf \<longleftrightarrow> False"

subsection \<open>Data model (types.ts)\<close>

datatype TransactionType = income | fixed_bill | flexible_bill | spending

text \<open>The fields \<^verbatim>\<open>id\<close> and \<^verbatim>\<open>type\<close> carry a suffix: both names are taken in HOL.\<close>

record Transaction =
  id_tx :: string
  date :: string
  merchant :: string
  amount :: number
  type_tx :: TransactionType
  category :: string

subsection \<open>String primitives of the host language\<close>

text \<open>
  \<^verbatim>\<open>String.prototype.toLowerCase\<close>: the upper-case letters below 256 are A to Z (65 to 90)
  and the accented capitals from 192 to 222 without the multiplication sign 215; each
  has its lower-case letter 32 places further.
\<close>

definition lowerChar :: "char \<Rightarrow> char" where
  "lowerChar c =
     (let n = (of_char c :: nat)
      in if (65 \<le> n \<and> n \<le> 90) \<or> (192 \<le> n \<and> n \<le> 222 \<and> n \<noteq> 215) then char_of (n + 32) else c)"

definition toLowerCase :: "string \<Rightarrow> string" where
  "toLowerCase s = map lowerChar s"

text \<open>
  \<^verbatim>\<open>String.prototype.trim\<close>: white space and line terminators are removed from both ends
  (below 256: tab, line feed, vertical tab, form feed, carriage return, space and the
  no-break space).
\<close>

definition isWhiteSpace :: "char \<Rightarrow> bool" where
  "isWhiteSpace c = (of_char c \<in> {9, 10, 11, 12, 13, 32, 160 :: nat})"

definition trim :: "string \<Rightarrow> string" where
  "trim s = rev (dropWhile isWhiteSpace (rev (dropWhile isWhiteSpace s)))"

text \<open>
  \<^verbatim>\<open>s.split('T')[0]\<close>: the part of \<open>s\<close> before its first \<^verbatim>\<open>T\<close>, all of \<open>s\<close> when it has
  none. The split of a string always has a first piece, so the index never misses.
\<close>

definition splitT0 :: "string \<Rightarrow> string" where
  "splitT0 s = takeWhile (\<lambda>c. c \<noteq> CHR ''T'') s"

subsection \<open>Step 1 of addTransactions: the duplicate filter\<close>

text \<open>
  The callback of \<^verbatim>\<open>prev.some\<close> in the duplicate filter, with the operands in the order of
  the source.
\<close>

definition sameTransaction :: "Transaction \<Rightarrow> Transaction \<Rightarrow> bool" where
  "sameTransaction existingTx newTx \<longleftrightarrow>
     splitT0 (date existingTx) = splitT0 (date newTx) \<and>
     numLess (Math_abs (subtract (amount existingTx) (amount newTx))) (roundNumber 0.01) \<and>
     trim (toLowerCase (merchant existingTx)) = trim (toLowerCase (merchant newTx))"

definition isDuplicate :: "Transaction list \<Rightarrow> Transaction \<Rightarrow> bool" where
  "isDuplicate prev newTx = list_ex (\<lambda>existingTx. sameTransaction existingTx newTx) prev"

text \<open>\<^verbatim>\<open>uniqueNew\<close>; the spec calls it \<open>dedupe(existing, incoming)\<close>.\<close>

definition uniqueNew :: "Transaction list \<Rightarrow> Transaction list \<Rightarrow> Transaction list" where
  "uniqueNew prev newTransactions = filter (\<lambda>newTx. \<not> isDuplicate prev newTx) newTransactions"

subsection \<open>Step 2 of addTransactions: fixed bills from the history\<close>

text \<open>
  \<^verbatim>\<open>s.replace(searchValue, replaceValue)\<close> with a string pattern: the first occurrence of
  the pattern, wherever it stands, is replaced; later occurrences stay.
\<close>

fun replace :: "string \<Rightarrow> string \<Rightarrow> string \<Rightarrow> string" where
  "replace [] searchValue replaceValue = (if searchValue = [] then replaceValue else [])"
| "replace (c # cs) searchValue replaceValue =
     (if take (length searchValue) (c # cs) = searchValue
      then replaceValue @ drop (length searchValue) (c # cs)
      else c # replace cs searchValue replaceValue)"

text \<open>
  \<^verbatim>\<open>s.includes(searchString)\<close>: does the search string occur at some position of \<open>s\<close>? The
  source's name is a keyword of Isabelle, hence the suffix.
\<close>

fun includes_str :: "string \<Rightarrow> string \<Rightarrow> bool" where
  "includes_str [] searchString \<longleftrightarrow> searchString = []"
| "includes_str (c # cs) searchString \<longleftrightarrow>
     take (length searchString) (c # cs) = searchString \<or> includes_str cs searchString"

definition cleanName :: "string \<Rightarrow> string" where
  "cleanName name =
     trim (replace (replace (replace (toLowerCase name)
       ''zelle to '' []) ''zelle transfer to '' []) ''transfer to '' [])"

text \<open>
  The value of \<^verbatim>\<open>new Date(s)\<close> as far as the program reads it. The host function is the
  parameter \<open>newDate :: string \<Rightarrow> JSDate option\<close> of what follows.
\<close>

record JSDate =
  getFullYear :: int
  getMonth :: nat

text \<open>\<^verbatim>\<open>new Date(s).getMonth()\<close>: a month index from 0 to 11, or \<open>NaN\<close> (\<open>None\<close>).\<close>

definition monthOf :: "(string \<Rightarrow> JSDate option) \<Rightarrow> string \<Rightarrow> nat option" where
  "monthOf newDate s = map_option getMonth (newDate s)"

text \<open>The operator \<^verbatim>\<open>!==\<close> on two such numbers: \<open>NaN\<close> is unequal to everything, itself included.\<close>

definition strictNotEqual :: "nat option \<Rightarrow> nat option \<Rightarrow> bool" where
  "strictNotEqual a b = (case (a, b) of (Some x, Some y) \<Rightarrow> x \<noteq> y | _ \<Rightarrow> True)"

text \<open>The three local constants of the callback of \<^verbatim>\<open>prev.some\<close> in \<^verbatim>\<open>isRecurring\<close>.\<close>

definition nameMatch :: "Transaction \<Rightarrow> Transaction \<Rightarrow> bool" where
  "nameMatch existingTx tx \<longleftrightarrow>
     (let prevName = cleanName (merchant existingTx); currentName = cleanName (merchant tx)
      in prevName = currentName \<or> includes_str prevName currentName \<or> includes_str currentName prevName)"

definition amountMatch :: "Transaction \<Rightarrow> Transaction \<Rightarrow> bool" where
  "amountMatch existingTx tx \<longleftrightarrow>
     numLess (Math_abs (subtract (amount existingTx) (amount tx))) (roundNumber 10.00)"

definition differentMonth ::
  "(string \<Rightarrow> JSDate option) \<Rightarrow> Transaction \<Rightarrow> Transaction \<Rightarrow> bool" where
  "differentMonth newDate existingTx tx \<longleftrightarrow>
     strictNotEqual (monthOf newDate (date existingTx)) (monthOf newDate (date tx))"

definition recurringWith ::
  "(string \<Rightarrow> JSDate option) \<Rightarrow> Transaction \<Rightarrow> Transaction \<Rightarrow> bool" where
  "recurringWith newDate tx existingTx \<longleftrightarrow>
     (if type_tx existingTx = income then False
      else nameMatch existingTx tx \<and> amountMatch existingTx tx \<and> differentMonth newDate existingTx tx)"

definition isRecurring ::
  "(string \<Rightarrow> JSDate option) \<Rightarrow> Transaction list \<Rightarrow> Transaction \<Rightarrow> bool" where
  "isRecurring newDate prev tx = list_ex (recurringWith newDate tx) prev"

text \<open>The callback of \<^verbatim>\<open>uniqueNew.map\<close>, with its three returns of \<open>tx\<close> in the source's order.\<close>

definition classifyTx ::
  "(string \<Rightarrow> JSDate option) \<Rightarrow> Transaction list \<Rightarrow> Transaction \<Rightarrow> Transaction" where
  "classifyTx newDate prev tx =
     (if type_tx tx = income then tx
      else if isRecurring newDate prev tx then tx\<lparr>type_tx := fixed_bill\<rparr>
      else if type_tx tx = fixed_bill then tx
      else tx)"

text \<open>
  \<^verbatim>\<open>processedNew\<close>, as a function of the list it maps over; the spec calls it
  \<open>classifyRecurring(existing, incoming)\<close>.
\<close>

definition processedNew ::
  "(string \<Rightarrow> JSDate option) \<Rightarrow> Transaction list \<Rightarrow> Transaction list \<Rightarrow> Transaction list" where
  "processedNew newDate prev txs = map (classifyTx newDate prev) txs"

subsection \<open>The two state updates\<close>

text \<open>\<^verbatim>\<open>setTransactions(prev => [transaction, ...prev])\<close>\<close>

definition addTransaction :: "Transaction \<Rightarrow> Transaction list \<Rightarrow> Transaction list" where
  "addTransaction transaction prev = transaction # prev"

text \<open>\<^verbatim>\<open>setTransactions(prev => { ...; return [...processedNew, ...prev] })\<close>\<close>

definition addTransactions ::
  "(string \<Rightarrow> JSDate option) \<Rightarrow> Transaction list \<Rightarrow> Transaction list \<Rightarrow> Transaction list" where
  "addTransactions newDate newTransactions prev =
     processedNew newDate prev (uniqueNew prev newTransactions) @ prev"

subsection \<open>The normalisation as the specification words it\<close>

text \<open>
  The specification's reading of \<^verbatim>\<open>cleanName\<close>, kept apart from the source's: after
  lower-casing, the first of the three markers that is a leading prefix is stripped, and
  no other; then the string is trimmed.
\<close>

definition cleanName_spec :: "string \<Rightarrow> string" where
  "cleanName_spec name =
     (let s = toLowerCase name in
      trim (if prefix ''zelle to '' s then drop (length ''zelle to '') s
            else if prefix ''zelle transfer to '' s then drop (length ''zelle transfer to '') s
            else if prefix ''transfer to '' s then drop (length ''transfer to '') s
            else s))"

text \<open>
  What deleting the first occurrence of a pattern means, without reference to the
  function that computes it: \<open>r\<close> is \<open>s\<close> with the leftmost occurrence of \<open>pat\<close> cut out,
  and \<open>s\<close> itself when \<open>pat\<close> does not occur. The occurrence after \<open>a\<close> is the leftmost
  one when \<open>pat\<close> does not occur in \<open>a\<close> followed by all but the last character of \<open>pat\<close>.
\<close>

definition removesFirstOccurrence :: "string \<Rightarrow> string \<Rightarrow> string \<Rightarrow> bool" where
  "removesFirstOccurrence pat s r \<longleftrightarrow>
     (if sublist pat s
      then \<exists>a b. s = a @ pat @ b \<and> \<not> sublist pat (a @ butlast pat) \<and> r = a @ b
      else r = s)"

text \<open>
  The normalised name without reference to \<open>cleanName\<close>: what is left, trimmed, after the
  leftmost \<^verbatim>\<open>zelle to \<close>, then the leftmost \<^verbatim>\<open>zelle transfer to \<close>, then the leftmost
  \<^verbatim>\<open>transfer to \<close> have been cut out of the lower-cased name.
\<close>

definition normalisesTo :: "string \<Rightarrow> string \<Rightarrow> bool" where
  "normalisesTo name r \<longleftrightarrow>
     (\<exists>s1 s2 s3.
        removesFirstOccurrence ''zelle to '' (toLowerCase name) s1 \<and>
        removesFirstOccurrence ''zelle transfer to '' s1 s2 \<and>
        removesFirstOccurrence ''transfer to '' s2 s3 \<and>
        r = trim s3)"

subsection \<open>A host for the examples\<close>

text \<open>
  One instance of the parameter \<open>newDate\<close>: a host whose local time is UTC, on the
  date-only form \<^verbatim>\<open>YYYY-MM-DD\<close> of the ECMAScript date-time string format, where the
  local month is the month written. Every other string is outside this instance and
  is mapped to the invalid date.
\<close>

definition digit :: "char \<Rightarrow> nat option" where
  "digit c = (let n = (of_char c :: nat) in if 48 \<le> n \<and> n \<le> 57 then Some (n - 48) else None)"

fun decimal :: "nat \<Rightarrow> string \<Rightarrow> nat option" where
  "decimal acc [] = Some acc"
| "decimal acc (c # cs) = (case digit c of None \<Rightarrow> None | Some d \<Rightarrow> decimal (10 * acc + d) cs)"

definition daysInMonth :: "nat \<Rightarrow> nat \<Rightarrow> nat" where
  "daysInMonth y m =
     (if m = 2 then (if y mod 4 = 0 \<and> (y mod 100 \<noteq> 0 \<or> y mod 400 = 0) then 29 else 28)
      else if m \<in> {4, 6, 9, 11} then 30 else 31)"

definition utcDateOnly :: "string \<Rightarrow> JSDate option" where
  "utcDateOnly s =
     (if length s = 10 \<and> s ! 4 = CHR ''-'' \<and> s ! 7 = CHR ''-'' then
        (case (decimal 0 (take 4 s), decimal 0 (take 2 (drop 5 s)), decimal 0 (drop 8 s)) of
           (Some y, Some m, Some d) \<Rightarrow>
             if 1 \<le> m \<and> m \<le> 12 \<and> 1 \<le> d \<and> d \<le> daysInMonth y m
             then Some \<lparr>getFullYear = int y, getMonth = m - 1\<rparr> else None
         | _ \<Rightarrow> None)
      else None)"

subsection \<open>Example records\<close>

text \<open>The records of the specification's test scenarios, and variations of them.\<close>

definition rentJan :: Transaction where
  "rentJan = \<lparr>id_tx = ''e1'', date = ''2024-01-05'', merchant = ''Acme Rent'', amount = Finite 1200,
     type_tx = flexible_bill, category = ''Housing''\<rparr>"

definition rentJanLate :: Transaction where
  "rentJanLate = \<lparr>id_tx = ''n1'', date = ''2024-01-20'', merchant = ''Acme Rent'', amount = Finite 1205,
     type_tx = spending, category = ''Housing''\<rparr>"

definition rentFeb :: Transaction where
  "rentFeb = \<lparr>id_tx = ''n2'', date = ''2024-02-05'', merchant = ''Acme Rent'', amount = Finite 1205,
     type_tx = spending, category = ''Housing''\<rparr>"

definition incomeFeb :: Transaction where
  "incomeFeb = \<lparr>id_tx = ''n3'', date = ''2024-02-05'', merchant = ''Acme Rent'', amount = Finite 1200,
     type_tx = income, category = ''Income''\<rparr>"

definition rentJanAgain :: Transaction where
  "rentJanAgain = \<lparr>id_tx = ''n4'', date = ''2024-01-05T09:30:00.000Z'', merchant = '' ACME rent'',
     amount = roundNumber 1200.004, type_tx = spending, category = ''Housing''\<rparr>"

definition rentJanTwoCents :: Transaction where
  "rentJanTwoCents = \<lparr>id_tx = ''n5'', date = ''2024-01-05'', merchant = ''Acme Rent'',
     amount = roundNumber 1200.02, type_tx = spending, category = ''Housing''\<rparr>"

definition rentJanNextDay :: Transaction where
  "rentJanNextDay = \<lparr>id_tx = ''n6'', date = ''2024-01-06'', merchant = ''Acme Rent'',
     amount = Finite 1200, type_tx = spending, category = ''Housing''\<rparr>"

definition rentJanOtherVendor :: Transaction where
  "rentJanOtherVendor = \<lparr>id_tx = ''n7'', date = ''2024-01-05'', merchant = ''Apex Rent'',
     amount = Finite 1200, type_tx = spending, category = ''Housing''\<rparr>"

definition rentJan2025 :: Transaction where
  "rentJan2025 = \<lparr>id_tx = ''n8'', date = ''2025-01-05'', merchant = ''Acme Rent'', amount = Finite 1200,
     type_tx = spending, category = ''Housing''\<rparr>"

definition rentDec2023 :: Transaction where
  "rentDec2023 = \<lparr>id_tx = ''e2'', date = ''2023-12-05'', merchant = ''Acme Rent'', amount = Finite 1200,
     type_tx = flexible_bill, category = ''Housing''\<rparr>"

definition rentJanOneCent :: Transaction where
  "rentJanOneCent = \<lparr>id_tx = ''n9'', date = ''2024-01-05'', merchant = ''Acme Rent'',
     amount = roundNumber 1200.01, type_tx = spending, category = ''Housing''\<rparr>"

definition tinyExisting :: Transaction where
  "tinyExisting = \<lparr>id_tx = ''e3'', date = ''2024-01-05'', merchant = ''Acme Rent'',
     amount = Finite (1 / 2 ^ 9 + 1 / 2 ^ 61), type_tx = spending, category = ''Other''\<rparr>"

definition tinyIncoming :: Transaction where
  "tinyIncoming = \<lparr>id_tx = ''n10'', date = ''2024-01-05'', merchant = ''Acme Rent'',
     amount = roundNumber 0.011953125, type_tx = spending, category = ''Other''\<rparr>"

definition tueJan02 :: Transaction where
  "tueJan02 = \<lparr>id_tx = ''e4'', date = ''Tue Jan 02 2024'', merchant = ''Acme Rent'',
     amount = Finite 1200, type_tx = spending, category = ''Housing''\<rparr>"

definition thuFeb08 :: Transaction where
  "thuFeb08 = \<lparr>id_tx = ''n11'', date = ''Thu Feb 08 2024'', merchant = ''Acme Rent'',
     amount = Finite 1200, type_tx = spending, category = ''Housing''\<rparr>"

definition rentBobJan :: Transaction where
  "rentBobJan = \<lparr>id_tx = ''e5'', date = ''2024-01-05'', merchant = ''Rent Bob'',
     amount = Finite 500, type_tx = flexible_bill, category = ''Housing''\<rparr>"

definition rentZelleBobFeb :: Transaction where
  "rentZelleBobFeb = \<lparr>id_tx = ''n12'', date = ''2024-02-05'', merchant = ''Rent Zelle to Bob'',
     amount = Finite 502, type_tx = spending, category = ''Housing''\<rparr>"

definition gymJan :: Transaction where
  "gymJan = \<lparr>id_tx = ''e6'', date = ''2024-01-10'', merchant = ''Gym'',
     amount = roundNumber 6.99, type_tx = flexible_bill, category = ''Health & Fitness''\<rparr>"

definition gymFeb :: Transaction where
  "gymFeb = \<lparr>id_tx = ''n13'', date = ''2024-02-10'', merchant = ''Gym'',
     amount = roundNumber 16.99, type_tx = spending, category = ''Health & Fitness''\<rparr>"

definition feeJan :: Transaction where
  "feeJan = \<lparr>id_tx = ''e7'', date = ''2024-01-10'', merchant = ''Fee'',
     amount = Finite 17, type_tx = flexible_bill, category = ''Other''\<rparr>"

definition feeFeb :: Transaction where
  "feeFeb = \<lparr>id_tx = ''n14'', date = ''2024-02-10'', merchant = ''Fee'',
     amount = Finite (7 + 1 / 2 ^ 50), type_tx = spending, category = ''Other''\<rparr>"

definition undatedOld :: Transaction where
  "undatedOld = \<lparr>id_tx = ''e8'', date = ''unknown'', merchant = ''Acme Rent'',
     amount = Finite 1200, type_tx = flexible_bill, category = ''Housing''\<rparr>"

definition undatedNew :: Transaction where
  "undatedNew = \<lparr>id_tx = ''n15'', date = ''unknown'', merchant = ''Acme Rent'',
     amount = Finite 1200, type_tx = spending, category = ''Housing''\<rparr>"

section \<open>Properties\<close>

subsection \<open>Facts about the numbers\<close>

text \<open>
  The arithmetic at known values: the double for 0.01, the difference \<^verbatim>\<open>0.3 - 0.1\<close>
  (0.19999999999999998), \<^verbatim>\<open>1200 - 1200.01\<close> (-0.009999999999990905) and
  \<^verbatim>\<open>6.99 - 16.99\<close> (-9.999999999999998).
\<close>

lemma double_arithmetic_examples:
  "roundNumber 0.01 = Finite (5764607523034235 / 2 ^ 59)"
  "subtract (roundNumber 0.3) (roundNumber 0.1) = Finite (7205759403792793 / 2 ^ 55)"
  "subtract (Finite 1200) (roundNumber 1200.01) = Finite (- (43980465111 / 2 ^ 42))"
  "subtract (roundNumber 6.99) (roundNumber 16.99) = Finite (- (5629499534213119 / 2 ^ 49))"
  by code_simp+

lemma Math_abs_negate: "Math_abs (negate z) = Math_abs z"
  by (cases z) simp_all

lemma Math_abs_roundNumber: "Math_abs (roundNumber x) = Math_abs (roundMagnitude \<bar>x\<bar>)"
  by (simp add: roundNumber_def Math_abs_negate abs_if)

text \<open>The distance of two numbers does not depend on the order of the operands.\<close>

lemma Math_abs_subtract_commute: "Math_abs (subtract a b) = Math_abs (subtract b a)"
proof (cases a)
  case (Finite x)
  show ?thesis
  proof (cases b)
    case (Finite y)
    with \<open>a = Finite x\<close> show ?thesis
      by (simp add: Math_abs_roundNumber abs_minus_commute)
  qed (simp_all add: Finite)
next
  case PosInf
  then show ?thesis by (cases b) simp_all
next
  case NegInf
  then show ?thesis by (cases b) simp_all
next
  case NaN
  then show ?thesis by (cases b) simp_all
qed

subsection \<open>Facts about the string primitives\<close>

lemma take_eq_prefix: "take (length p) s = p \<longleftrightarrow> prefix p s"
  by (metis append_eq_conv_conj prefix_def)

text \<open>\<^verbatim>\<open>includes\<close> is the substring relation of the list library.\<close>

lemma includes_str_sublist: "includes_str s sub \<longleftrightarrow> sublist sub s"
  by (induction s) (auto simp: take_eq_prefix sublist_Cons_right)

text \<open>
  The piece before the first \<^verbatim>\<open>T\<close>: a time of day after the date part is dropped, and a
  date without a time of day is kept whole.
\<close>

lemma splitT0_drops_time:
  "CHR ''T'' \<notin> set d \<Longrightarrow> splitT0 (d @ CHR ''T'' # t) = d \<and> splitT0 d = d"
  by (simp add: splitT0_def takeWhile_append)

lemma replace_absent: "\<not> sublist pat s \<Longrightarrow> replace s pat rep = s"
proof (induction s)
  case Nil
  then show ?case by auto
next
  case (Cons c cs)
  then show ?case
    by (auto simp: take_eq_prefix sublist_Cons_right)
qed

lemma not_sublist_butlast: "pat \<noteq> [] \<Longrightarrow> \<not> sublist pat (butlast pat)"
  by (cases pat rule: rev_cases) (auto dest: sublist_length_le)

lemma prefix_shift:
  assumes "pat \<noteq> []"
  shows "prefix pat (c # a @ pat @ b) \<longleftrightarrow> prefix pat (c # a @ butlast pat)"
proof -
  have "c # a @ pat @ b = (c # a @ butlast pat) @ last pat # b"
    using assms by simp
  moreover have "length pat \<le> length (c # a @ butlast pat)"
    by simp
  ultimately have "take (length pat) (c # a @ pat @ b) = take (length pat) (c # a @ butlast pat)"
    by (simp only: take_append) simp
  then show ?thesis
    by (simp only: take_eq_prefix [symmetric])
qed

lemma replace_first:
  "pat \<noteq> [] \<Longrightarrow> \<not> sublist pat (a @ butlast pat) \<Longrightarrow>
   replace (a @ pat @ b) pat rep = a @ rep @ b"
proof (induction a)
  case Nil
  then show ?case by (cases pat) auto
next
  case (Cons c a)
  have np: "\<not> prefix pat (c # a @ pat @ b)"
    using Cons.prems prefix_shift [of pat c a b] by (auto simp: sublist_Cons_right)
  have "\<not> sublist pat (a @ butlast pat)"
    using Cons.prems by (auto simp: sublist_Cons_right)
  with Cons.IH Cons.prems np show ?case
    by (simp add: take_eq_prefix)
qed

lemma first_occurrence_exists:
  "pat \<noteq> [] \<Longrightarrow> sublist pat s \<Longrightarrow>
   \<exists>a b. s = a @ pat @ b \<and> \<not> sublist pat (a @ butlast pat)"
proof (induction s)
  case Nil
  then show ?case by simp
next
  case (Cons c cs)
  show ?case
  proof (cases "prefix pat (c # cs)")
    case True
    then obtain b where "c # cs = [] @ pat @ b" by (auto simp: prefix_def)
    moreover have "\<not> sublist pat ([] @ butlast pat)"
      using Cons.prems not_sublist_butlast by simp
    ultimately show ?thesis by blast
  next
    case False
    with Cons.prems have "sublist pat cs" by (simp add: sublist_Cons_right)
    with Cons obtain a b where ab: "cs = a @ pat @ b" "\<not> sublist pat (a @ butlast pat)"
      by blast
    have "\<not> prefix pat (c # a @ butlast pat)"
      using False ab(1) prefix_shift [OF Cons.prems(1), of c a b] by simp
    with ab have "\<not> sublist pat ((c # a) @ butlast pat)"
      by (simp add: sublist_Cons_right)
    moreover have "c # cs = (c # a) @ pat @ b" using ab by simp
    ultimately show ?thesis by blast
  qed
qed

text \<open>
  The model of \<^verbatim>\<open>replace\<close> with an empty replacement deletes the leftmost occurrence,
  and the leftmost occurrence determines the result.
\<close>

lemma removesFirstOccurrence_replace:
  assumes "pat \<noteq> []"
  shows "removesFirstOccurrence pat s r \<longleftrightarrow> r = replace s pat []"
proof (cases "sublist pat s")
  case True
  have cut: "replace s pat [] = a @ b"
    if "s = a @ pat @ b" and "\<not> sublist pat (a @ butlast pat)" for a b
    using replace_first [OF assms that(2), of b "[]"] that(1) by simp
  show ?thesis
  proof
    assume "removesFirstOccurrence pat s r"
    with True obtain a b where "s = a @ pat @ b" "\<not> sublist pat (a @ butlast pat)" "r = a @ b"
      unfolding removesFirstOccurrence_def by auto
    then show "r = replace s pat []"
      using cut by simp
  next
    assume r: "r = replace s pat []"
    from first_occurrence_exists [OF assms True]
    obtain a b where ab: "s = a @ pat @ b" "\<not> sublist pat (a @ butlast pat)"
      by blast
    with r cut have "r = a @ b"
      by simp
    with True ab show "removesFirstOccurrence pat s r"
      unfolding removesFirstOccurrence_def by auto
  qed
next
  case False
  then show ?thesis
    by (auto simp add: removesFirstOccurrence_def replace_absent)
qed

lemma normalisesTo_cleanName: "normalisesTo name r \<longleftrightarrow> r = cleanName name"
proof -
  have z: "removesFirstOccurrence ''zelle to '' s t \<longleftrightarrow> t = replace s ''zelle to '' []"
    for s t
    by (rule removesFirstOccurrence_replace) simp
  have zt: "removesFirstOccurrence ''zelle transfer to '' s t \<longleftrightarrow>
            t = replace s ''zelle transfer to '' []" for s t
    by (rule removesFirstOccurrence_replace) simp
  have t: "removesFirstOccurrence ''transfer to '' s t \<longleftrightarrow> t = replace s ''transfer to '' []"
    for s t
    by (rule removesFirstOccurrence_replace) simp
  show ?thesis
    unfolding normalisesTo_def z zt t by (simp add: cleanName_def)
qed

subsection \<open>Facts about the two steps\<close>

lemma isDuplicate_iff:
  "isDuplicate prev newTx \<longleftrightarrow> (\<exists>e \<in> set prev. sameTransaction e newTx)"
  by (simp add: isDuplicate_def list_ex_iff)

lemma isRecurring_iff:
  "isRecurring newDate prev tx \<longleftrightarrow> (\<exists>e \<in> set prev. recurringWith newDate tx e)"
  by (simp add: isRecurring_def list_ex_iff)

lemma uniqueNew_append:
  "uniqueNew prev (xs @ ys) = uniqueNew prev xs @ uniqueNew prev ys"
  by (simp add: uniqueNew_def)

lemma processedNew_append:
  "processedNew newDate prev (xs @ ys) =
   processedNew newDate prev xs @ processedNew newDate prev ys"
  by (simp add: processedNew_def)

text \<open>For two valid dates the operator \<^verbatim>\<open>!==\<close> is the inequality of the month indices.\<close>

lemma differentMonth_valid:
  "newDate (date e) = Some de \<Longrightarrow> newDate (date n) = Some dn \<Longrightarrow>
   differentMonth newDate e n \<longleftrightarrow> getMonth de \<noteq> getMonth dn"
  by (simp add: differentMonth_def strictNotEqual_def monthOf_def)

text \<open>For parseable dates it is the inequality of the two values of \<^verbatim>\<open>getMonth()\<close>.\<close>

lemma differentMonth_parseable:
  "newDate (date e) \<noteq> None \<Longrightarrow> newDate (date n) \<noteq> None \<Longrightarrow>
   differentMonth newDate e n \<longleftrightarrow> monthOf newDate (date e) \<noteq> monthOf newDate (date n)"
  by (auto simp add: differentMonth_def strictNotEqual_def monthOf_def)

lemma succ_mod_12_neq: "Suc m mod 12 \<noteq> m"
  by presburger

subsection \<open>The duplicate filter\<close>

text \<open>
  C1, as amended. For every history \<open>H\<close> and batch \<open>B\<close>, the duplicate filter returns
  exactly the elements \<open>n\<close> of \<open>B\<close>, in their order, for which no \<open>e\<close> of \<open>H\<close> agrees with
  \<open>n\<close> on all three of: the text of the date before its first \<^verbatim>\<open>T\<close> (for an ISO
  timestamp its date part, so that the time of day is ignored); the amount, in that the
  difference of the two doubles, rounded to a double, has an absolute value below the
  double nearest to 0.01; and the merchant after lower-casing and trimming. An element
  with such an \<open>e\<close> is removed, an element without one is kept.
\<close>

theorem dedupe_keeps_exactly_the_unmatched:
  "uniqueNew H B =
     filter (\<lambda>n. \<not> (\<exists>e \<in> set H.
        splitT0 (date n) = splitT0 (date e) \<and>
        numLess (Math_abs (subtract (amount n) (amount e))) (roundNumber 0.01) \<and>
        trim (toLowerCase (merchant n)) = trim (toLowerCase (merchant e)))) B"
proof -
  have "isDuplicate H n \<longleftrightarrow> (\<exists>e \<in> set H.
        splitT0 (date n) = splitT0 (date e) \<and>
        numLess (Math_abs (subtract (amount n) (amount e))) (roundNumber 0.01) \<and>
        trim (toLowerCase (merchant n)) = trim (toLowerCase (merchant e)))" for n
    unfolding isDuplicate_iff sameTransaction_def
    by (metis Math_abs_subtract_commute)
  then show ?thesis
    by (simp add: uniqueNew_def)
qed

theorem dedupe_keeps_exactly_the_unmatched_witness:
  "uniqueNew [rentJan] [rentJanAgain, rentJanTwoCents, rentJanNextDay, rentJanOtherVendor] =
     [rentJanTwoCents, rentJanNextDay, rentJanOtherVendor]"
  unfolding dedupe_keeps_exactly_the_unmatched
  by code_simp

text \<open>
  The claim as the specification states it fails on the amount test and on the day.
  An incoming 1200.01 against a stored 1200 is removed, although the two decimal
  amounts are a full cent apart: the double for 1200.01 lies below it. Two doubles
  whose exact values are less than 0.01 apart are kept both, because their rounded
  difference is the double nearest to 0.01. Two dates that do not start with a date
  part, here two different days written with the weekday first, have the same (empty)
  text before their first \<^verbatim>\<open>T\<close>, and the incoming record is removed.
\<close>

theorem dedupe_exact_test_counterexample:
  "amount rentJan = Finite 1200 \<and>
   amount rentJanOneCent = roundNumber 1200.01 \<and>
   \<not> \<bar>(1200.01 :: rat) - 1200\<bar> < 0.01 \<and>
   uniqueNew [rentJan] [rentJanOneCent] = [] \<and>
   amount tinyExisting = Finite (1 / 2 ^ 9 + 1 / 2 ^ 61) \<and>
   amount tinyIncoming = Finite (6890507429876859 / 2 ^ 59) \<and>
   \<bar>(6890507429876859 / 2 ^ 59 :: rat) - (1 / 2 ^ 9 + 1 / 2 ^ 61)\<bar> < 0.01 \<and>
   uniqueNew [tinyExisting] [tinyIncoming] = [tinyIncoming] \<and>
   splitT0 (date tueJan02) = [] \<and> splitT0 (date thuFeb08) = [] \<and>
   uniqueNew [tueJan02] [thuFeb08] = []"
  by code_simp

text \<open>
  C7. The duplicate filter is idempotent in the batch: filtering the filtered batch
  against the same history changes nothing.
\<close>

theorem dedupe_idempotent:
  "uniqueNew H (uniqueNew H B) = uniqueNew H B"
  by (simp add: uniqueNew_def)

text \<open>
  C8. The filtered batch is a subsequence of the batch: its elements are elements of the
  batch, in the order of the batch, and the empty batch gives the empty list.
\<close>

theorem dedupe_subsequence:
  "subseq (uniqueNew H B) B \<and> set (uniqueNew H B) \<subseteq> set B \<and> uniqueNew H [] = []"
  by (auto simp add: uniqueNew_def)

subsection \<open>The recurrence classifier\<close>

text \<open>
  C2, as amended. For every history \<open>H\<close> and every incoming transaction \<open>n\<close> that is not
  income, all dates being parseable by the host, the classifier sets the type of \<open>n\<close> to
  \<open>fixed_bill\<close> exactly when some \<open>e\<close> of \<open>H\<close> is not income, has a normalised merchant name
  that equals, contains or is contained in the normalised name of \<open>n\<close>, has an amount
  whose difference to that of \<open>n\<close>, rounded to a double, has an absolute value below 10,
  and has another month index \<^verbatim>\<open>getMonth()\<close> than \<open>n\<close>. Without such an \<open>e\<close> the record is
  returned as it came; a record that is already a fixed bill is returned as it came in
  both cases. The normalised name is the one the code computes: the lower-cased name
  with the leftmost occurrence of each of the three markers cut out in turn, trimmed.
\<close>

theorem classifier_upgrades_exactly_on_evidence:
  assumes "type_tx n \<noteq> income"
    and "newDate (date n) \<noteq> None"
    and "\<forall>e \<in> set H. newDate (date e) \<noteq> None"
  shows "classifyTx newDate H n =
           (if \<exists>e \<in> set H.
                 type_tx e \<noteq> income \<and>
                 (cleanName (merchant e) = cleanName (merchant n) \<or>
                  sublist (cleanName (merchant n)) (cleanName (merchant e)) \<or>
                  sublist (cleanName (merchant e)) (cleanName (merchant n))) \<and>
                 numLess (Math_abs (subtract (amount e) (amount n))) (roundNumber 10) \<and>
                 monthOf newDate (date e) \<noteq> monthOf newDate (date n)
            then n\<lparr>type_tx := fixed_bill\<rparr> else n) \<and>
         (type_tx n = fixed_bill \<longrightarrow> classifyTx newDate H n = n) \<and>
         (\<forall>name r. normalisesTo name r \<longleftrightarrow> r = cleanName name)"
proof -
  have m: "differentMonth newDate e n \<longleftrightarrow>
           monthOf newDate (date e) \<noteq> monthOf newDate (date n)" if "e \<in> set H" for e
    using that assms(2,3) by (simp add: differentMonth_parseable)
  have r: "isRecurring newDate H n \<longleftrightarrow> (\<exists>e \<in> set H.
                 type_tx e \<noteq> income \<and>
                 (cleanName (merchant e) = cleanName (merchant n) \<or>
                  sublist (cleanName (merchant n)) (cleanName (merchant e)) \<or>
                  sublist (cleanName (merchant e)) (cleanName (merchant n))) \<and>
                 numLess (Math_abs (subtract (amount e) (amount n))) (roundNumber 10) \<and>
                 monthOf newDate (date e) \<noteq> monthOf newDate (date n))"
    using m
    by (auto simp add: isRecurring_iff recurringWith_def nameMatch_def amountMatch_def
        includes_str_sublist Let_def)
  have c: "classifyTx newDate H n =
             (if isRecurring newDate H n then n\<lparr>type_tx := fixed_bill\<rparr> else n)"
    using assms(1) by (simp add: classifyTx_def)
  have k: "type_tx n = fixed_bill \<longrightarrow> classifyTx newDate H n = n"
    by (simp add: classifyTx_def)
  have nm: "\<forall>name r. normalisesTo name r \<longleftrightarrow> r = cleanName name"
    by (simp add: normalisesTo_cleanName)
  from c [unfolded r] k nm show ?thesis
    by (intro conjI)
qed

theorem classifier_upgrades_exactly_on_evidence_witness:
  "type_tx rentZelleBobFeb \<noteq> income \<and> utcDateOnly (date rentZelleBobFeb) \<noteq> None \<and>
   utcDateOnly (date rentBobJan) \<noteq> None \<and>
   classifyTx utcDateOnly [rentBobJan] rentZelleBobFeb =
     rentZelleBobFeb\<lparr>type_tx := fixed_bill\<rparr> \<and>
   type_tx rentJanLate \<noteq> income \<and> utcDateOnly (date rentJanLate) \<noteq> None \<and>
   utcDateOnly (date rentJan) \<noteq> None \<and>
   classifyTx utcDateOnly [rentJan] rentJanLate = rentJanLate"
proof -
  have a1: "type_tx rentZelleBobFeb \<noteq> income"
    by (simp add: rentZelleBobFeb_def)
  have a2: "utcDateOnly (date rentZelleBobFeb) \<noteq> None"
    by code_simp
  have a3: "\<forall>e \<in> set [rentBobJan]. utcDateOnly (date e) \<noteq> None"
    by code_simp
  have b1: "type_tx rentJanLate \<noteq> income"
    by (simp add: rentJanLate_def)
  have b2: "utcDateOnly (date rentJanLate) \<noteq> None"
    by code_simp
  have b3: "\<forall>e \<in> set [rentJan]. utcDateOnly (date e) \<noteq> None"
    by code_simp
  have a: "classifyTx utcDateOnly [rentBobJan] rentZelleBobFeb =
             rentZelleBobFeb\<lparr>type_tx := fixed_bill\<rparr>"
    unfolding classifier_upgrades_exactly_on_evidence [OF a1 a2 a3, THEN conjunct1]
    by code_simp
  have b: "classifyTx utcDateOnly [rentJan] rentJanLate = rentJanLate"
    unfolding classifier_upgrades_exactly_on_evidence [OF b1 b2 b3, THEN conjunct1]
    by code_simp
  from a3 b3 have a3': "utcDateOnly (date rentBobJan) \<noteq> None"
    and b3': "utcDateOnly (date rentJan) \<noteq> None"
    by simp_all
  from a1 a2 a3' a b1 b2 b3' b show ?thesis
    by (intro conjI)
qed

text \<open>
  The claim as the specification states it fails in four ways. With the normalisation
  of the specification (a marker is stripped as a leading prefix only) the names
  \<^verbatim>\<open>Rent Bob\<close> and \<^verbatim>\<open>Rent Zelle to Bob\<close> do not match, and the code upgrades. The decimal
  amounts 6.99 and 16.99 are a full 10 apart, and the code upgrades, the difference of
  the two doubles being below 10. The doubles 17 and \<^verbatim>\<open>7 + 1/2^50\<close> are less than 10 apart, and
  the code does not upgrade, their rounded difference being 10. Two records whose date
  is not a date have no month, and the code upgrades.
\<close>

theorem classifier_evidence_counterexample:
  "cleanName_spec (merchant rentBobJan) = ''rent bob'' \<and>
   cleanName_spec (merchant rentZelleBobFeb) = ''rent zelle to bob'' \<and>
   \<not> sublist ''rent bob'' ''rent zelle to bob'' \<and>
   \<not> sublist ''rent zelle to bob'' ''rent bob'' \<and>
   classifyTx utcDateOnly [rentBobJan] rentZelleBobFeb =
     rentZelleBobFeb\<lparr>type_tx := fixed_bill\<rparr> \<and>
   amount gymJan = roundNumber 6.99 \<and> amount gymFeb = roundNumber 16.99 \<and>
   \<not> \<bar>(6.99 :: rat) - 16.99\<bar> < 10 \<and>
   classifyTx utcDateOnly [gymJan] gymFeb = gymFeb\<lparr>type_tx := fixed_bill\<rparr> \<and>
   amount feeJan = Finite 17 \<and> amount feeFeb = Finite (7 + 1 / 2 ^ 50) \<and>
   \<bar>(17 :: rat) - (7 + 1 / 2 ^ 50)\<bar> < 10 \<and>
   classifyTx utcDateOnly [feeJan] feeFeb = feeFeb \<and>
   utcDateOnly (date undatedOld) = None \<and> utcDateOnly (date undatedNew) = None \<and>
   classifyTx utcDateOnly [undatedOld] undatedNew = undatedNew\<lparr>type_tx := fixed_bill\<rparr>"
  by code_simp

text \<open>
  C4. The condition \<open>differentMonth\<close> reads the month index of the two dates and nothing
  else. For two valid dates it holds exactly when the month indices differ, whatever the
  years: two dates in the same month of different years do not satisfy it, and the
  existing record is then no evidence of recurrence; two dates in adjacent months
  (December and January included) satisfy it, whatever the years.
\<close>

theorem differentMonth_ignores_the_year:
  assumes "newDate (date e) = Some de" and "newDate (date n) = Some dn"
  shows "(differentMonth newDate e n \<longleftrightarrow> getMonth de \<noteq> getMonth dn) \<and>
         (getMonth de = getMonth dn \<and> getFullYear de \<noteq> getFullYear dn \<longrightarrow>
            \<not> differentMonth newDate e n \<and> \<not> recurringWith newDate n e \<and>
            \<not> isRecurring newDate [e] n) \<and>
         (getMonth dn = Suc (getMonth de) mod 12 \<or> getMonth de = Suc (getMonth dn) mod 12 \<longrightarrow>
            differentMonth newDate e n)"
proof -
  have dm: "differentMonth newDate e n \<longleftrightarrow> getMonth de \<noteq> getMonth dn"
    using assms by (rule differentMonth_valid)
  have same: "\<not> recurringWith newDate n e \<and> \<not> isRecurring newDate [e] n"
    if "\<not> differentMonth newDate e n"
    using that by (simp add: isRecurring_def recurringWith_def)
  have adj: "getMonth de \<noteq> getMonth dn"
    if "getMonth dn = Suc (getMonth de) mod 12 \<or> getMonth de = Suc (getMonth dn) mod 12"
    using that succ_mod_12_neq [of "getMonth de"] succ_mod_12_neq [of "getMonth dn"]
    by metis
  from dm same adj show ?thesis
    by blast
qed

theorem differentMonth_ignores_the_year_witness:
  "utcDateOnly (date rentJan) = Some \<lparr>getFullYear = 2024, getMonth = 0\<rparr> \<and>
   utcDateOnly (date rentDec2023) = Some \<lparr>getFullYear = 2023, getMonth = 11\<rparr> \<and>
   utcDateOnly (date rentJan2025) = Some \<lparr>getFullYear = 2025, getMonth = 0\<rparr> \<and>
   \<not> differentMonth utcDateOnly rentJan rentJan2025 \<and>
   \<not> isRecurring utcDateOnly [rentJan] rentJan2025 \<and>
   differentMonth utcDateOnly rentDec2023 rentJan2025"
proof -
  have a: "utcDateOnly (date rentJan) = Some \<lparr>getFullYear = 2024, getMonth = 0\<rparr>"
    by code_simp
  have b: "utcDateOnly (date rentDec2023) = Some \<lparr>getFullYear = 2023, getMonth = 11\<rparr>"
    by code_simp
  have c: "utcDateOnly (date rentJan2025) = Some \<lparr>getFullYear = 2025, getMonth = 0\<rparr>"
    by code_simp
  show ?thesis
    using a b c differentMonth_ignores_the_year [OF a c] differentMonth_ignores_the_year [OF b c]
    by simp
qed

text \<open>
  C5. An incoming transaction whose type is income is returned unchanged, whatever the
  history holds.
\<close>

theorem income_passes_unchanged:
  assumes "type_tx n = income"
  shows "classifyTx newDate H n = n \<and> type_tx (classifyTx newDate H n) = income"
  using assms by (simp add: classifyTx_def)

theorem income_passes_unchanged_witness:
  "type_tx incomeFeb = income \<and> isRecurring utcDateOnly [rentJan] incomeFeb \<and>
   classifyTx utcDateOnly [rentJan] incomeFeb = incomeFeb"
proof -
  have h: "type_tx incomeFeb = income"
    by (simp add: incomeFeb_def)
  have r: "isRecurring utcDateOnly [rentJan] incomeFeb"
    by code_simp
  from income_passes_unchanged [OF h, of utcDateOnly "[rentJan]"] h r show ?thesis
    by simp
qed

text \<open>
  C6. The classifier returns as many records as it is given, and each returned record
  has the \<open>id\<close>, \<open>date\<close>, \<open>merchant\<close>, \<open>amount\<close> and \<open>category\<close> of the record at the same
  position of the input: it is the input record with at most the type replaced.
\<close>

theorem classifier_changes_only_the_type:
  "length (processedNew newDate H B) = length B \<and>
   (\<forall>i < length B.
      processedNew newDate H B ! i = (B ! i)\<lparr>type_tx := type_tx (processedNew newDate H B ! i)\<rparr> \<and>
      id_tx (processedNew newDate H B ! i) = id_tx (B ! i) \<and>
      date (processedNew newDate H B ! i) = date (B ! i) \<and>
      merchant (processedNew newDate H B ! i) = merchant (B ! i) \<and>
      amount (processedNew newDate H B ! i) = amount (B ! i) \<and>
      category (processedNew newDate H B ! i) = category (B ! i))"
  by (simp add: processedNew_def classifyTx_def)

theorem classifier_changes_only_the_type_witness:
  "(1::nat) < length [rentJanLate, rentFeb] \<and>
   type_tx (processedNew utcDateOnly [rentJan] [rentJanLate, rentFeb] ! 1) = fixed_bill \<and>
   type_tx ([rentJanLate, rentFeb] ! 1) = spending \<and>
   id_tx (processedNew utcDateOnly [rentJan] [rentJanLate, rentFeb] ! 1) = id_tx rentFeb \<and>
   date (processedNew utcDateOnly [rentJan] [rentJanLate, rentFeb] ! 1) = date rentFeb \<and>
   merchant (processedNew utcDateOnly [rentJan] [rentJanLate, rentFeb] ! 1) = merchant rentFeb \<and>
   amount (processedNew utcDateOnly [rentJan] [rentJanLate, rentFeb] ! 1) = amount rentFeb \<and>
   category (processedNew utcDateOnly [rentJan] [rentJanLate, rentFeb] ! 1) = category rentFeb"
proof -
  have l: "(1::nat) < length [rentJanLate, rentFeb]"
    by simp
  have t: "type_tx (processedNew utcDateOnly [rentJan] [rentJanLate, rentFeb] ! 1) = fixed_bill"
    by code_simp
  have s: "type_tx ([rentJanLate, rentFeb] ! 1) = spending"
    by (simp add: rentFeb_def)
  from classifier_changes_only_the_type [of utcDateOnly "[rentJan]" "[rentJanLate, rentFeb]"] l
  have "id_tx (processedNew utcDateOnly [rentJan] [rentJanLate, rentFeb] ! 1) = id_tx ([rentJanLate, rentFeb] ! 1) \<and>
      date (processedNew utcDateOnly [rentJan] [rentJanLate, rentFeb] ! 1) = date ([rentJanLate, rentFeb] ! 1) \<and>
      merchant (processedNew utcDateOnly [rentJan] [rentJanLate, rentFeb] ! 1) = merchant ([rentJanLate, rentFeb] ! 1) \<and>
      amount (processedNew utcDateOnly [rentJan] [rentJanLate, rentFeb] ! 1) = amount ([rentJanLate, rentFeb] ! 1) \<and>
      category (processedNew utcDateOnly [rentJan] [rentJanLate, rentFeb] ! 1) = category ([rentJanLate, rentFeb] ! 1)"
    by blast
  with l t s show ?thesis
    by simp
qed

text \<open>
  C3, as amended. For every merchant string the normalisation lower-cases it, deletes
  the first occurrence of \<^verbatim>\<open>zelle to \<close> wherever it stands, then the first occurrence of
  \<^verbatim>\<open>zelle transfer to \<close> in what is left, then the first occurrence of \<^verbatim>\<open>transfer to \<close> in
  what is left, and trims the result. The markers are not required to be leading
  prefixes, and up to three of them are deleted. Such a chain of three deletions
  exists for every string, and the result of every such chain, trimmed, is the
  normalised name.
\<close>

theorem cleanName_deletes_first_occurrences:
  "(\<exists>s1 s2 s3.
      removesFirstOccurrence ''zelle to '' (toLowerCase name) s1 \<and>
      removesFirstOccurrence ''zelle transfer to '' s1 s2 \<and>
      removesFirstOccurrence ''transfer to '' s2 s3) \<and>
   (\<forall>s1 s2 s3.
      removesFirstOccurrence ''zelle to '' (toLowerCase name) s1 \<and>
      removesFirstOccurrence ''zelle transfer to '' s1 s2 \<and>
      removesFirstOccurrence ''transfer to '' s2 s3 \<longrightarrow>
      cleanName name = trim s3)"
proof -
  have z: "removesFirstOccurrence ''zelle to '' s r \<longleftrightarrow> r = replace s ''zelle to '' []"
    for s r
    by (rule removesFirstOccurrence_replace) simp
  have zt: "removesFirstOccurrence ''zelle transfer to '' s r \<longleftrightarrow>
            r = replace s ''zelle transfer to '' []" for s r
    by (rule removesFirstOccurrence_replace) simp
  have t: "removesFirstOccurrence ''transfer to '' s r \<longleftrightarrow> r = replace s ''transfer to '' []"
    for s r
    by (rule removesFirstOccurrence_replace) simp
  show ?thesis
    unfolding z zt t by (simp add: cleanName_def)
qed

theorem cleanName_deletes_first_occurrences_witness:
  "removesFirstOccurrence ''zelle to '' (toLowerCase ''Zelle to Transfer to Bob'')
     ''transfer to bob'' \<and>
   removesFirstOccurrence ''zelle transfer to '' ''transfer to bob'' ''transfer to bob'' \<and>
   removesFirstOccurrence ''transfer to '' ''transfer to bob'' ''bob'' \<and>
   cleanName ''Zelle to Transfer to Bob'' = trim ''bob''"
proof -
  have a: "removesFirstOccurrence ''zelle to '' (toLowerCase ''Zelle to Transfer to Bob'')
     ''transfer to bob''"
    by (subst removesFirstOccurrence_replace) (simp, code_simp)
  have b: "removesFirstOccurrence ''zelle transfer to '' ''transfer to bob'' ''transfer to bob''"
    by (subst removesFirstOccurrence_replace) (simp, code_simp)
  have c: "removesFirstOccurrence ''transfer to '' ''transfer to bob'' ''bob''"
    by (subst removesFirstOccurrence_replace) (simp, code_simp)
  from cleanName_deletes_first_occurrences [of "''Zelle to Transfer to Bob''"] a b c
  have "cleanName ''Zelle to Transfer to Bob'' = trim ''bob''"
    by blast
  with a b c show ?thesis
    by blast
qed

text \<open>
  The claim as the specification states it (at most one marker, and only as a leading
  prefix) fails on a marker in the middle of the name and on a name with two markers.
\<close>

theorem cleanName_prefix_only_counterexample:
  "cleanName ''Rent Zelle to Bob'' = ''rent bob'' \<and>
   cleanName_spec ''Rent Zelle to Bob'' = ''rent zelle to bob'' \<and>
   cleanName ''Zelle to Transfer to Bob'' = ''bob'' \<and>
   cleanName_spec ''Zelle to Transfer to Bob'' = ''transfer to bob''"
  by code_simp

subsection \<open>The two state updates\<close>

text \<open>
  C9. A single add stores the record as it is given, next to the records already
  stored: the new history holds the old records and the new one, field for field, and
  neither the duplicate filter nor the classifier is applied, whatever the history holds.
\<close>

theorem single_add_is_verbatim:
  "mset (addTransaction t H) = add_mset t (mset H) \<and>
   t \<in> set (addTransaction t H) \<and>
   length (addTransaction t H) = Suc (length H) \<and>
   filter (\<lambda>x. x \<noteq> t) (addTransaction t H) = filter (\<lambda>x. x \<noteq> t) H"
  by (simp add: addTransaction_def)

theorem single_add_is_verbatim_witness:
  "isDuplicate [rentJan] rentJanAgain \<and> isRecurring utcDateOnly [rentJan] rentFeb \<and>
   mset (addTransaction rentJanAgain [rentJan]) = {#rentJanAgain, rentJan#} \<and>
   mset (addTransaction rentFeb [rentJan]) = {#rentFeb, rentJan#}"
proof -
  have d: "isDuplicate [rentJan] rentJanAgain"
    by code_simp
  have r: "isRecurring utcDateOnly [rentJan] rentFeb"
    by code_simp
  from single_add_is_verbatim [of rentJanAgain "[rentJan]"]
    single_add_is_verbatim [of rentFeb "[rentJan]"] d r
  show ?thesis
    by simp
qed

text \<open>
  C10. The merge handles every element of the batch by itself, against the history as
  it was before the merge: the records kept and classified from a batch \<open>B1 @ B2\<close> are
  those from \<open>B1\<close> followed by those from \<open>B2\<close>, and those from a batch are the
  concatenation of those from its elements. So a record that has no duplicate in the
  history survives twice when the batch holds it twice, and the batch is no evidence
  of recurrence for its own records: merged into the empty history, every batch is
  stored as it is.
\<close>

theorem merge_is_elementwise:
  "addTransactions newDate (B1 @ B2) H =
     processedNew newDate H (uniqueNew H B1) @ processedNew newDate H (uniqueNew H B2) @ H \<and>
   processedNew newDate H (uniqueNew H B) =
     concat (map (\<lambda>n. processedNew newDate H (uniqueNew H [n])) B) \<and>
   (\<not> isDuplicate H n \<longrightarrow> uniqueNew H [n, n] = [n, n]) \<and>
   addTransactions newDate B [] = B"
proof -
  have a: "addTransactions newDate (B1 @ B2) H =
     processedNew newDate H (uniqueNew H B1) @ processedNew newDate H (uniqueNew H B2) @ H"
    by (simp add: addTransactions_def uniqueNew_append processedNew_append)
  have b: "processedNew newDate H (uniqueNew H B) =
     concat (map (\<lambda>n. processedNew newDate H (uniqueNew H [n])) B)"
    by (induction B) (simp_all add: uniqueNew_def processedNew_def)
  have c: "\<not> isDuplicate H n \<longrightarrow> uniqueNew H [n, n] = [n, n]"
    by (simp add: uniqueNew_def)
  have "classifyTx newDate [] x = x" for x
    by (simp add: classifyTx_def isRecurring_def)
  then have "map (classifyTx newDate []) B = B"
    by (induction B) simp_all
  then have d: "addTransactions newDate B [] = B"
    by (simp add: addTransactions_def uniqueNew_def isDuplicate_def processedNew_def)
  from a b c d show ?thesis
    by blast
qed

theorem merge_is_elementwise_witness:
  "\<not> isDuplicate [rentJan] rentFeb \<and>
   uniqueNew [rentJan] [rentFeb, rentFeb] = [rentFeb, rentFeb] \<and>
   addTransactions utcDateOnly [rentJan, rentFeb] [] = [rentJan, rentFeb]"
proof -
  have h: "\<not> isDuplicate [rentJan] rentFeb"
    by code_simp
  from merge_is_elementwise [of utcDateOnly "[]" "[]" "[rentJan]" "[rentJan, rentFeb]" rentFeb]
  have "(\<not> isDuplicate [rentJan] rentFeb \<longrightarrow> uniqueNew [rentJan] [rentFeb, rentFeb] = [rentFeb, rentFeb])"
    and "addTransactions utcDateOnly [rentJan, rentFeb] [] = [rentJan, rentFeb]"
    by blast+
  with h show ?thesis
    by blast
qed

end
